theory Spec2Isabelle
  imports Complex_Main "HOL-Library.List_Lexorder" "HOL-Library.Char_ord"
    "HOL-Library.Product_Lexorder"
begin

section \<open>Numbers, rounding and exceptions\<close>

text \<open>
  Python floats are modelled as exact rationals: \<open>0.40\<close> is \<open>2/5\<close>, \<open>84.99\<close> is
  \<open>8499/100\<close>. The binary representation error of a float and the limits of its range are
  not part of this model. Every exception the modelled code can raise is a value of
  \<open>exn\<close>, and a function that can raise returns \<open>exn + 'a\<close> with \<open>Inl\<close> for the raise.
\<close>

datatype exn =
    KeyError string
  | TypeError
  | ValueError
  | AttributeError
  | ZeroDivisionError
  | JSONDecodeError
  | ClientError

text \<open>
  \<open>round(x, 2)\<close>: the nearest multiple of \<open>1/100\<close>, a tie going to the even one.
\<close>

definition round_half_even :: "rat \<Rightarrow> int" where
  "round_half_even x =
     (let f = \<lfloor>x\<rfloor>; d = x - of_int f
      in if d < 1 / 2 then f
         else if 1 / 2 < d then f + 1
         else if even f then f else f + 1)"

definition round2 :: "rat \<Rightarrow> rat" where
  "round2 x = of_int (round_half_even (x * 100)) / 100"

section \<open>The scorer (analysis/scorer.py)\<close>

subsection \<open>Data\<close>

text \<open>
  A metric is a dict with the keys \<open>category\<close>, \<open>metric_name\<close>, \<open>value\<close> and
  \<open>confidence\<close>. A key may be absent (\<open>None\<close> below): \<open>m['k']\<close> then raises
  \<open>KeyError\<close> and \<open>m.get('k', d)\<close> yields \<open>d\<close>. Other keys are never read.
\<close>

record metric =
  m_category :: "string option"
  m_metric_name :: "string option"
  m_value :: "rat option"
  m_confidence :: "rat option"

text \<open>The entries of the per-metric detail list: keys \<open>name\<close>, \<open>value\<close>, \<open>confidence\<close>.\<close>

record detail =
  d_name :: string
  d_value :: rat
  d_confidence :: rat

text \<open>The dict returned by \<open>calculate_category_score\<close>.\<close>

record category_score =
  c_score :: rat
  c_confidence :: rat
  c_metric_count :: nat
  c_metrics :: "detail list"

text \<open>
  The dict returned by \<open>calculate_final_score\<close>. Dicts keep insertion order, so
  \<open>category_breakdown\<close> and \<open>component_scores\<close> are association lists in that order.
  \<open>calculated_at\<close> is the clock reading, which the model takes as an argument.
\<close>

record final_result =
  f_final_score :: rat
  f_score_level :: string
  f_confidence :: rat
  f_environmental_score :: rat
  f_social_score :: rat
  f_governance_score :: rat
  f_category_breakdown :: "(string \<times> category_score) list"
  f_component_scores :: "(string \<times> rat) list"
  f_calculated_at :: string

subsection \<open>Constants\<close>

definition CATEGORY_WEIGHTS :: "(string \<times> rat) list" where
  "CATEGORY_WEIGHTS =
     [(''Environmental'', 2 / 5), (''Social'', 7 / 20), (''Governance'', 1 / 4)]"

definition SCORE_LEVELS :: "(string \<times> int \<times> int) list" where
  "SCORE_LEVELS =
     [(''Excellent'', 85, 100), (''Good'', 70, 84), (''Fair'', 50, 69),
      (''Poor'', 30, 49), (''Very Poor'', 0, 29)]"

subsection \<open>calculate_category_score\<close>

text \<open>Step 1, the comprehension \<open>[m for m in metrics if m['category'] == category]\<close>.\<close>

fun filter_category :: "metric list \<Rightarrow> string \<Rightarrow> exn + metric list" where
  "filter_category [] category = Inr []"
| "filter_category (m # ms) category =
     (case m_category m of
        None \<Rightarrow> Inl (KeyError ''category'')
      | Some c \<Rightarrow>
          (case filter_category ms category of
             Inl e \<Rightarrow> Inl e
           | Inr rest \<Rightarrow> Inr (if c = category then m # rest else rest)))"

text \<open>
  Step 3, the loop that accumulates \<open>(total_weighted_score, total_confidence)\<close>, with the
  \<open>.get\<close> defaults 0.5 and 50.
\<close>

fun weighted_totals :: "metric list \<Rightarrow> rat \<times> rat \<Rightarrow> rat \<times> rat" where
  "weighted_totals [] acc = acc"
| "weighted_totals (m # ms) (total_weighted_score, total_confidence) =
     (let confidence = (case m_confidence m of None \<Rightarrow> 1 / 2 | Some c \<Rightarrow> c);
          val = (case m_value m of None \<Rightarrow> 50 | Some v \<Rightarrow> v)
      in weighted_totals ms
           (total_weighted_score + val * confidence, total_confidence + confidence))"

text \<open>
  Step 5, the comprehension building \<open>metric_details\<close>. The dict display reads
  \<open>m['metric_name']\<close>, \<open>m['value']\<close>, \<open>m['confidence']\<close> in this order, without defaults.
\<close>

definition metric_detail :: "metric \<Rightarrow> exn + detail" where
  "metric_detail m =
     (case m_metric_name m of
        None \<Rightarrow> Inl (KeyError ''metric_name'')
      | Some n \<Rightarrow>
          (case m_value m of
             None \<Rightarrow> Inl (KeyError ''value'')
           | Some v \<Rightarrow>
               (case m_confidence m of
                  None \<Rightarrow> Inl (KeyError ''confidence'')
                | Some c \<Rightarrow> Inr \<lparr>d_name = n, d_value = v, d_confidence = c\<rparr>)))"

fun metric_details :: "metric list \<Rightarrow> exn + detail list" where
  "metric_details [] = Inr []"
| "metric_details (m # ms) =
     (case metric_detail m of
        Inl e \<Rightarrow> Inl e
      | Inr d \<Rightarrow>
          (case metric_details ms of
             Inl e \<Rightarrow> Inl e
           | Inr ds \<Rightarrow> Inr (d # ds)))"

definition calculate_category_score :: "metric list \<Rightarrow> string \<Rightarrow> exn + category_score" where
  "calculate_category_score metrics category =
     (case filter_category metrics category of
        Inl e \<Rightarrow> Inl e
      | Inr category_metrics \<Rightarrow>
          if category_metrics = [] then
            Inr \<lparr>c_score = 50, c_confidence = 0, c_metric_count = 0, c_metrics = []\<rparr>
          else
            (let (total_weighted_score, total_confidence) =
                   weighted_totals category_metrics (0, 0);
                 (cat_score, avg_confidence) =
                   (if 0 < total_confidence
                    then (total_weighted_score / total_confidence,
                          total_confidence / of_nat (length category_metrics))
                    else (50, 0))
             in case metric_details category_metrics of
                  Inl e \<Rightarrow> Inl e
                | Inr ds \<Rightarrow>
                    Inr \<lparr>c_score = round2 cat_score,
                         c_confidence = round2 avg_confidence,
                         c_metric_count = length category_metrics,
                         c_metrics = ds\<rparr>))"

subsection \<open>Score levels\<close>

text \<open>
  \<open>SustainabilityScorer._get_score_level\<close>: the first entry of \<open>SCORE_LEVELS\<close> whose
  closed range holds the score, and \<open>"Unknown"\<close> when the loop ends without a hit.
\<close>

fun level_lookup :: "(string \<times> int \<times> int) list \<Rightarrow> rat \<Rightarrow> string" where
  "level_lookup [] score = ''Unknown''"
| "level_lookup ((level, min_score, max_score) # rest) score =
     (if of_int min_score \<le> score \<and> score \<le> of_int max_score then level
      else level_lookup rest score)"

definition scorer_get_score_level :: "rat \<Rightarrow> string" where
  "scorer_get_score_level score = level_lookup SCORE_LEVELS score"

text \<open>\<open>PDFGenerator._get_score_level\<close> (reports/pdf_generator.py).\<close>

definition pdf_get_score_level :: "rat \<Rightarrow> string" where
  "pdf_get_score_level score =
     (if 85 \<le> score then ''Excellent''
      else if 70 \<le> score then ''Good''
      else if 50 \<le> score then ''Fair''
      else if 30 \<le> score then ''Poor''
      else ''Very Poor'')"

text \<open>\<open>get_score_level\<close> of the sidebar (ui/components/sidebar.py).\<close>

definition get_score_level :: "rat \<Rightarrow> string" where
  "get_score_level score =
     (if 85 \<le> score then ''Excellent''
      else if 70 \<le> score then ''Good''
      else if 50 \<le> score then ''Fair''
      else if 30 \<le> score then ''Poor''
      else ''Very Poor'')"

subsection \<open>calculate_final_score\<close>

text \<open>
  Step 1, the loop over \<open>CATEGORY_WEIGHTS.items()\<close>. The state is
  \<open>(category_scores, weighted_sum, total_weight)\<close>; the categories are distinct, so every
  assignment \<open>category_scores[category] = category_data\<close> adds a new key at the end.
\<close>

fun score_categories ::
  "metric list \<Rightarrow> (string \<times> rat) list \<Rightarrow> (string \<times> category_score) list \<times> rat \<times> rat \<Rightarrow>
     exn + (string \<times> category_score) list \<times> rat \<times> rat" where
  "score_categories metrics [] acc = Inr acc"
| "score_categories metrics ((category, weight) # rest) (category_scores, weighted_sum, total_weight) =
     (case calculate_category_score metrics category of
        Inl e \<Rightarrow> Inl e
      | Inr category_data \<Rightarrow>
          score_categories metrics rest
            (category_scores @ [(category, category_data)],
             weighted_sum + c_score category_data * weight,
             total_weight + weight))"

text \<open>
  The string methods used by \<open>_build_component_scores\<close>, on ASCII text:
  \<open>lower()\<close>, \<open>replace(' ', '_')\<close>, \<open>replace('and', '')\<close>, \<open>replace('__', '_')\<close> and
  \<open>strip('_')\<close>. \<open>replace\<close> rewrites the non-overlapping occurrences from the left.
\<close>

definition lower_char :: "char \<Rightarrow> char" where
  "lower_char c =
     (let n = (of_char c :: nat) in if 65 \<le> n \<and> n \<le> 90 then char_of (n + 32) else c)"

definition lower :: "string \<Rightarrow> string" where
  "lower s = map lower_char s"

definition replace_space :: "string \<Rightarrow> string" where
  "replace_space s = map (\<lambda>c. if c = CHR '' '' then CHR ''_'' else c) s"

fun remove_and :: "string \<Rightarrow> string" where
  "remove_and [] = []"
| "remove_and [a] = [a]"
| "remove_and [a, b] = [a, b]"
| "remove_and (a # b # c # cs) =
     (if a = CHR ''a'' \<and> b = CHR ''n'' \<and> c = CHR ''d'' then remove_and cs
      else a # remove_and (b # c # cs))"

fun collapse_underscores :: "string \<Rightarrow> string" where
  "collapse_underscores [] = []"
| "collapse_underscores [a] = [a]"
| "collapse_underscores (a # b # cs) =
     (if a = CHR ''_'' \<and> b = CHR ''_'' then CHR ''_'' # collapse_underscores cs
      else a # collapse_underscores (b # cs))"

definition strip_underscores :: "string \<Rightarrow> string" where
  "strip_underscores s =
     rev (dropWhile (\<lambda>c. c = CHR ''_'') (rev (dropWhile (\<lambda>c. c = CHR ''_'') s)))"

definition metric_key :: "string \<Rightarrow> string" where
  "metric_key name =
     strip_underscores (collapse_underscores (remove_and (replace_space (lower name))))"

text \<open>\<open>d[k] = v\<close> on an insertion-ordered dict: overwrite in place, or append.\<close>

fun dict_set :: "'k \<Rightarrow> 'v \<Rightarrow> ('k \<times> 'v) list \<Rightarrow> ('k \<times> 'v) list" where
  "dict_set k v [] = [(k, v)]"
| "dict_set k v ((k', v') # kvs) =
     (if k' = k then (k, v) # kvs else (k', v') # dict_set k v kvs)"

fun add_metric_scores :: "detail list \<Rightarrow> (string \<times> rat) list \<Rightarrow> (string \<times> rat) list" where
  "add_metric_scores [] component_scores = component_scores"
| "add_metric_scores (metric # rest) component_scores =
     add_metric_scores rest (dict_set (metric_key (d_name metric)) (d_value metric) component_scores)"

fun build_component_scores ::
  "(string \<times> category_score) list \<Rightarrow> (string \<times> rat) list \<Rightarrow> (string \<times> rat) list" where
  "build_component_scores [] component_scores = component_scores"
| "build_component_scores ((category, data) # rest) component_scores =
     build_component_scores rest
       (add_metric_scores (c_metrics data)
          (dict_set (lower category @ ''_overall'') (c_score data) component_scores))"

text \<open>\<open>d[k]\<close> on such a dict.\<close>

definition dict_get :: "(string \<times> 'v) list \<Rightarrow> string \<Rightarrow> exn + 'v" where
  "dict_get d k = (case map_of d k of None \<Rightarrow> Inl (KeyError k) | Some v \<Rightarrow> Inr v)"

text \<open>
  Steps 2 to 5. \<open>raw_final_score\<close> is the local variable \<open>final_score\<close>, the one the level
  is computed from; the result carries it rounded. \<open>now\<close> stands for
  \<open>datetime.now().isoformat()\<close>.
\<close>

definition raw_final_score :: "rat \<Rightarrow> rat \<Rightarrow> rat" where
  "raw_final_score weighted_sum total_weight =
     (if 0 < total_weight then weighted_sum / total_weight else 50)"

definition calculate_final_score :: "string \<Rightarrow> metric list \<Rightarrow> exn + final_result" where
  "calculate_final_score now metrics =
     (case score_categories metrics CATEGORY_WEIGHTS ([], 0, 0) of
        Inl e \<Rightarrow> Inl e
      | Inr (category_scores, weighted_sum, total_weight) \<Rightarrow>
          (let final_score = raw_final_score weighted_sum total_weight;
               score_level = scorer_get_score_level final_score
           in if length category_scores = 0 then Inl ZeroDivisionError
              else
                (let avg_confidence =
                       sum_list (map (\<lambda>(category, cat). c_confidence cat) category_scores)
                         / of_nat (length category_scores)
                 in case dict_get category_scores ''Environmental'' of
                      Inl e \<Rightarrow> Inl e
                    | Inr env \<Rightarrow>
                   (case dict_get category_scores ''Social'' of
                      Inl e \<Rightarrow> Inl e
                    | Inr soc \<Rightarrow>
                   (case dict_get category_scores ''Governance'' of
                      Inl e \<Rightarrow> Inl e
                    | Inr gov \<Rightarrow>
                        Inr \<lparr>f_final_score = round2 final_score,
                             f_score_level = score_level,
                             f_confidence = round2 avg_confidence,
                             f_environmental_score = c_score env,
                             f_social_score = c_score soc,
                             f_governance_score = c_score gov,
                             f_category_breakdown = category_scores,
                             f_component_scores = build_component_scores category_scores [],
                             f_calculated_at = now\<rparr>)))))"

subsection \<open>get_recommendations\<close>

text \<open>
  Each recommendation is an f-string; the constructors below carry what the f-string
  interpolates. \<open>Critical\<close> and \<open>Important\<close> are the two overall lines
  (\<open>"Critical: Significant improvements needed ..."\<close>,
  \<open>"Important: Enhance sustainability practices ..."\<close>), \<open>Priority category score\<close> is
  \<open>"Priority: Improve {category} practices (current score: {score:.1f}/100)"\<close> and
  \<open>FocusOn name category value\<close> is
  \<open>"Focus on: {name} in {category} category (score: {value:.1f}/100)"\<close>.
\<close>

datatype recommendation =
    Critical
  | Important
  | Priority string rat
  | FocusOn string string rat

text \<open>The body of the loop over the three categories, for one category.\<close>

definition category_recommendations ::
  "final_result \<Rightarrow> string \<Rightarrow> recommendation list \<Rightarrow> exn + recommendation list" where
  "category_recommendations scores category recommendations =
     (case dict_get (f_category_breakdown scores) category of
        Inl e \<Rightarrow> Inl e
      | Inr category_data \<Rightarrow>
          (let score = c_score category_data;
               recommendations1 =
                 (if score < 60 then recommendations @ [Priority category score]
                  else recommendations);
               low_metrics = filter (\<lambda>m. d_value m < 50) (c_metrics category_data)
           in Inr (recommendations1
                     @ map (\<lambda>metric. FocusOn (d_name metric) category (d_value metric))
                         (take 2 low_metrics))))"

fun recommendations_loop ::
  "final_result \<Rightarrow> string list \<Rightarrow> recommendation list \<Rightarrow> exn + recommendation list" where
  "recommendations_loop scores [] recommendations = Inr recommendations"
| "recommendations_loop scores (category # rest) recommendations =
     (case category_recommendations scores category recommendations of
        Inl e \<Rightarrow> Inl e
      | Inr recommendations1 \<Rightarrow> recommendations_loop scores rest recommendations1)"

definition get_recommendations :: "final_result \<Rightarrow> exn + recommendation list" where
  "get_recommendations scores =
     (case recommendations_loop scores [''Environmental'', ''Social'', ''Governance''] [] of
        Inl e \<Rightarrow> Inl e
      | Inr recommendations \<Rightarrow>
          (let recommendations1 =
                 (if f_final_score scores < 50 then Critical # recommendations
                  else if f_final_score scores < 70 then Important # recommendations
                  else recommendations)
           in Inr (take 5 recommendations1)))"

section \<open>The metrics extractor (analysis/extractor.py)\<close>

subsection \<open>Values delivered by json.loads\<close>

text \<open>
  A float is a rational or one of the three special values, which \<open>json.loads\<close> and
  \<open>float\<close> both can deliver. A JSON object is a dict, here the list of its items in
  insertion order.
\<close>

datatype pyfloat = Fin rat | PosInf | NegInf | NaN

datatype json =
    JNull
  | JBool bool
  | JNum pyfloat
  | JStr string
  | JArr "json list"
  | JObj "(string \<times> json) list"

text \<open>The dicts that \<open>_validate_metrics\<close> and \<open>_get_default_metrics\<close> build.\<close>

record validated_metric =
  v_category :: json
  v_metric_name :: json
  v_value :: pyfloat
  v_confidence :: pyfloat

subsection \<open>Python operators on these values\<close>

text \<open>\<open>a < b\<close> on floats; every comparison with NaN is false.\<close>

fun py_less :: "pyfloat \<Rightarrow> pyfloat \<Rightarrow> bool" where
  "py_less NaN b = False"
| "py_less a NaN = False"
| "py_less (Fin a) (Fin b) = (a < b)"
| "py_less (Fin a) PosInf = True"
| "py_less (Fin a) NegInf = False"
| "py_less PosInf b = False"
| "py_less NegInf NegInf = False"
| "py_less NegInf b = True"

text \<open>
  \<open>min(a, b)\<close> and \<open>max(a, b)\<close> keep the first argument unless the second is strictly
  smaller, respectively strictly larger.
\<close>

definition py_min :: "pyfloat \<Rightarrow> pyfloat \<Rightarrow> pyfloat" where
  "py_min a b = (if py_less b a then b else a)"

definition py_max :: "pyfloat \<Rightarrow> pyfloat \<Rightarrow> pyfloat" where
  "py_max a b = (if py_less a b then b else a)"

text \<open>\<open>round(x, 2)\<close> on a float: the special values are returned unchanged.\<close>

fun round2_float :: "pyfloat \<Rightarrow> pyfloat" where
  "round2_float (Fin r) = Fin (round2 r)"
| "round2_float x = x"

text \<open>
  \<open>float(x)\<close>. What \<open>float\<close> makes of a string is Python's own grammar of float
  literals, which is not part of the repository: it is the argument \<open>str_to_float\<close>, with
  \<open>None\<close> for a string that \<open>float\<close> rejects with \<open>ValueError\<close>.
\<close>

definition py_float :: "(string \<Rightarrow> pyfloat option) \<Rightarrow> json \<Rightarrow> exn + pyfloat" where
  "py_float str_to_float x =
     (case x of
        JNum f \<Rightarrow> Inr f
      | JBool b \<Rightarrow> Inr (Fin (if b then 1 else 0))
      | JStr s \<Rightarrow> (case str_to_float s of None \<Rightarrow> Inl ValueError | Some f \<Rightarrow> Inr f)
      | JNull \<Rightarrow> Inl TypeError
      | JArr xs \<Rightarrow> Inl TypeError
      | JObj kvs \<Rightarrow> Inl TypeError)"

text \<open>\<open>s.startswith(k)\<close> and the substring test \<open>k in s\<close>.\<close>

fun starts_with :: "string \<Rightarrow> string \<Rightarrow> bool" where
  "starts_with s [] = True"
| "starts_with [] (k # ks) = False"
| "starts_with (c # cs) (k # ks) = (c = k \<and> starts_with cs ks)"

fun is_substring :: "string \<Rightarrow> string \<Rightarrow> bool" where
  "is_substring k [] = (k = [])"
| "is_substring k (c # cs) = (starts_with (c # cs) k \<or> is_substring k cs)"

text \<open>
  \<open>k in x\<close> for a string \<open>k\<close>: key membership in a dict, substring test in a string,
  element membership in a list, and \<open>TypeError\<close> for a value that is no container.
\<close>

definition py_in :: "string \<Rightarrow> json \<Rightarrow> exn + bool" where
  "py_in k x =
     (case x of
        JObj kvs \<Rightarrow> Inr (k \<in> set (map fst kvs))
      | JStr s \<Rightarrow> Inr (is_substring k s)
      | JArr xs \<Rightarrow> Inr (JStr k \<in> set xs)
      | JNull \<Rightarrow> Inl TypeError
      | JBool b \<Rightarrow> Inl TypeError
      | JNum f \<Rightarrow> Inl TypeError)"

text \<open>\<open>all(k in x for k in ks)\<close>: stops at the first key that is missing.\<close>

fun all_in :: "string list \<Rightarrow> json \<Rightarrow> exn + bool" where
  "all_in [] x = Inr True"
| "all_in (k # ks) x =
     (case py_in k x of
        Inl e \<Rightarrow> Inl e
      | Inr present \<Rightarrow> if present then all_in ks x else Inr False)"

text \<open>
  \<open>x[k]\<close> for a string \<open>k\<close>: the value in a dict (\<open>KeyError\<close> without the key), and
  \<open>TypeError\<close> for every other value (a string or a list takes integer indices only).
\<close>

definition py_getitem :: "json \<Rightarrow> string \<Rightarrow> exn + json" where
  "py_getitem x k =
     (case x of
        JObj kvs \<Rightarrow> (case map_of kvs k of None \<Rightarrow> Inl (KeyError k) | Some v \<Rightarrow> Inr v)
      | JNull \<Rightarrow> Inl TypeError
      | JBool b \<Rightarrow> Inl TypeError
      | JNum f \<Rightarrow> Inl TypeError
      | JStr s \<Rightarrow> Inl TypeError
      | JArr xs \<Rightarrow> Inl TypeError)"

text \<open>
  \<open>x in CATEGORY_WEIGHTS\<close>, membership in the keys of a dict: the value is hashed
  first, and a list or a dict is unhashable. The extractor has its own
  \<open>CATEGORY_WEIGHTS\<close>, with the items of the scorer's.
\<close>

definition in_category_weights :: "json \<Rightarrow> exn + bool" where
  "in_category_weights x =
     (case x of
        JStr s \<Rightarrow> Inr (s \<in> set (map fst CATEGORY_WEIGHTS))
      | JNull \<Rightarrow> Inr False
      | JBool b \<Rightarrow> Inr False
      | JNum f \<Rightarrow> Inr False
      | JArr xs \<Rightarrow> Inl TypeError
      | JObj kvs \<Rightarrow> Inl TypeError)"

text \<open>
  \<open>for x in xs\<close>: the elements of a list, the keys of a dict, the characters of a
  string; \<open>TypeError\<close> for a value that is not iterable.
\<close>

definition py_iter :: "json \<Rightarrow> exn + json list" where
  "py_iter x =
     (case x of
        JArr xs \<Rightarrow> Inr xs
      | JObj kvs \<Rightarrow> Inr (map (\<lambda>kv. JStr (fst kv)) kvs)
      | JStr s \<Rightarrow> Inr (map (\<lambda>c. JStr [c]) s)
      | JNull \<Rightarrow> Inl TypeError
      | JBool b \<Rightarrow> Inl TypeError
      | JNum f \<Rightarrow> Inl TypeError)"

subsection \<open>_validate_metrics\<close>

definition REQUIRED_FIELDS :: "string list" where
  "REQUIRED_FIELDS = [''category'', ''metric_name'', ''value'', ''confidence'']"

text \<open>
  The two \<open>try\<close> blocks: \<open>x = float(metric[key]); x = max(lo, min(hi, x))\<close>, with
  \<open>except (ValueError, TypeError)\<close> setting the default. The handler formats
  \<open>metric['metric_name']\<close> into its warning before it assigns.
\<close>

definition coerce_and_clamp ::
  "(string \<Rightarrow> pyfloat option) \<Rightarrow> json \<Rightarrow> string \<Rightarrow> rat \<Rightarrow> rat \<Rightarrow> rat \<Rightarrow> exn + pyfloat" where
  "coerce_and_clamp str_to_float metric key lo hi dflt =
     (let attempt =
            (case py_getitem metric key of
               Inl e \<Rightarrow> Inl e
             | Inr raw \<Rightarrow>
                 (case py_float str_to_float raw of
                    Inl e \<Rightarrow> Inl e
                  | Inr x \<Rightarrow> Inr (py_max (Fin lo) (py_min (Fin hi) x))))
      in case attempt of
           Inr x \<Rightarrow> Inr x
         | Inl e \<Rightarrow>
             if e = ValueError \<or> e = TypeError then
               (case py_getitem metric ''metric_name'' of
                  Inl e' \<Rightarrow> Inl e'
                | Inr name \<Rightarrow> Inr (Fin dflt))
             else Inl e)"

text \<open>
  One pass of the loop body: \<open>Inr None\<close> is \<open>continue\<close>, \<open>Inr (Some r)\<close> is the dict
  appended to \<open>validated\<close>.
\<close>

definition validate_metric ::
  "(string \<Rightarrow> pyfloat option) \<Rightarrow> json \<Rightarrow> exn + validated_metric option" where
  "validate_metric str_to_float metric =
     (case all_in REQUIRED_FIELDS metric of
        Inl e \<Rightarrow> Inl e
      | Inr has_all \<Rightarrow>
          if \<not> has_all then Inr None
          else
            (case py_getitem metric ''category'' of
               Inl e \<Rightarrow> Inl e
             | Inr category \<Rightarrow>
            (case in_category_weights category of
               Inl e \<Rightarrow> Inl e
             | Inr known \<Rightarrow>
                 if \<not> known then Inr None
                 else
                   (case coerce_and_clamp str_to_float metric ''value'' 0 100 50 of
                      Inl e \<Rightarrow> Inl e
                    | Inr val \<Rightarrow>
                   (case coerce_and_clamp str_to_float metric ''confidence'' 0 1 (1 / 2) of
                      Inl e \<Rightarrow> Inl e
                    | Inr confidence \<Rightarrow>
                   (case py_getitem metric ''category'' of
                      Inl e \<Rightarrow> Inl e
                    | Inr category' \<Rightarrow>
                   (case py_getitem metric ''metric_name'' of
                      Inl e \<Rightarrow> Inl e
                    | Inr name \<Rightarrow>
                        Inr (Some \<lparr>v_category = category',
                                   v_metric_name = name,
                                   v_value = round2_float val,
                                   v_confidence = round2_float confidence\<rparr>))))))))"

fun validate_loop ::
  "(string \<Rightarrow> pyfloat option) \<Rightarrow> json list \<Rightarrow> validated_metric list \<Rightarrow>
     exn + validated_metric list" where
  "validate_loop str_to_float [] validated = Inr validated"
| "validate_loop str_to_float (metric # rest) validated =
     (case validate_metric str_to_float metric of
        Inl e \<Rightarrow> Inl e
      | Inr None \<Rightarrow> validate_loop str_to_float rest validated
      | Inr (Some r) \<Rightarrow> validate_loop str_to_float rest (validated @ [r]))"

definition validate_metrics ::
  "(string \<Rightarrow> pyfloat option) \<Rightarrow> json \<Rightarrow> exn + validated_metric list" where
  "validate_metrics str_to_float metrics =
     (case py_iter metrics of
        Inl e \<Rightarrow> Inl e
      | Inr items \<Rightarrow> validate_loop str_to_float items [])"

subsection \<open>_get_default_metrics\<close>

text \<open>\<open>METRICS_SCHEMA\<close> of prompts/extraction_prompts.py, in the order of the dict.\<close>

definition METRICS_SCHEMA :: "(string \<times> string list) list" where
  "METRICS_SCHEMA =
     [(''Environmental'',
         [''Carbon Emissions Reduction'', ''Renewable Energy Usage'', ''Waste Management'',
          ''Water Conservation'', ''Sustainable Materials'']),
      (''Social'',
         [''Labor Practices'', ''Diversity and Inclusion'', ''Community Impact'',
          ''Human Rights'', ''Employee Well-being'']),
      (''Governance'',
         [''Board Independence'', ''Ethics and Compliance'', ''Transparency and Reporting'',
          ''Risk Management'', ''Stakeholder Engagement''])]"

fun default_names_loop ::
  "string \<Rightarrow> string list \<Rightarrow> validated_metric list \<Rightarrow> validated_metric list" where
  "default_names_loop category [] default_metrics = default_metrics"
| "default_names_loop category (metric_name # rest) default_metrics =
     default_names_loop category rest
       (default_metrics @
          [\<lparr>v_category = JStr category, v_metric_name = JStr metric_name,
            v_value = Fin 50, v_confidence = Fin (1 / 10)\<rparr>])"

fun default_schema_loop ::
  "(string \<times> string list) list \<Rightarrow> validated_metric list \<Rightarrow> validated_metric list" where
  "default_schema_loop [] default_metrics = default_metrics"
| "default_schema_loop ((category, metric_names) # rest) default_metrics =
     default_schema_loop rest (default_names_loop category metric_names default_metrics)"

definition get_default_metrics :: "validated_metric list" where
  "get_default_metrics = default_schema_loop METRICS_SCHEMA []"

subsection \<open>extract_metrics\<close>

text \<open>A research source: a dict with the keys \<open>url\<close> and \<open>content\<close>.\<close>

record source =
  src_url :: string
  src_content :: string

fun join :: "string \<Rightarrow> string list \<Rightarrow> string" where
  "join sep [] = []"
| "join sep [x] = x"
| "join sep (x # y # ys) = x @ sep @ join sep (y # ys)"

definition combined_content :: "source list \<Rightarrow> string" where
  "combined_content sources =
     join ([CHR 0x0A, CHR 0x0A] @ ''---'' @ [CHR 0x0A, CHR 0x0A])
       (map (\<lambda>s. ''Source: '' @ src_url s @ [CHR 0x0A] @ take 5000 (src_content s)) sources)"

text \<open>\<open>data.get('metrics', [])\<close>: only a dict has the method \<open>get\<close>.\<close>

definition data_get_metrics :: "json \<Rightarrow> exn + json" where
  "data_get_metrics data =
     (case data of
        JObj kvs \<Rightarrow> (case map_of kvs ''metrics'' of None \<Rightarrow> Inr (JArr []) | Some v \<Rightarrow> Inr v)
      | JNull \<Rightarrow> Inl AttributeError
      | JBool b \<Rightarrow> Inl AttributeError
      | JNum f \<Rightarrow> Inl AttributeError
      | JStr s \<Rightarrow> Inl AttributeError
      | JArr xs \<Rightarrow> Inl AttributeError)"

text \<open>
  The body of the \<open>try\<close> block, steps 3 to 5. The collaborators are arguments:
  \<open>complete_json\<close> is the call of the language model on the prompt, which raises
  (\<open>Inl\<close>) or returns the content of the reply, a string or \<open>None\<close>; \<open>json_loads\<close> is
  \<open>json.loads\<close> on a string, with \<open>None\<close> for \<open>JSONDecodeError\<close>.
\<close>

definition extraction_attempt ::
  "(string \<Rightarrow> exn + string option) \<Rightarrow> (string \<Rightarrow> json option) \<Rightarrow> (string \<Rightarrow> pyfloat option) \<Rightarrow>
     string \<Rightarrow> exn + validated_metric list" where
  "extraction_attempt complete_json json_loads str_to_float prompt =
     (case complete_json prompt of
        Inl e \<Rightarrow> Inl e
      | Inr None \<Rightarrow> Inl TypeError
      | Inr (Some response) \<Rightarrow>
          (case json_loads response of
             None \<Rightarrow> Inl JSONDecodeError
           | Some data \<Rightarrow>
               (case data_get_metrics data of
                  Inl e \<Rightarrow> Inl e
                | Inr metrics \<Rightarrow> validate_metrics str_to_float metrics)))"

text \<open>
  \<open>extract_metrics\<close>. \<open>create_prompt\<close> is \<open>create_metrics_extraction_prompt\<close>, a
  template filled with its two arguments. The two handlers are
  \<open>except json.JSONDecodeError\<close> and \<open>except Exception\<close>.
\<close>

definition extract_metrics ::
  "(string \<Rightarrow> string \<Rightarrow> string) \<Rightarrow> (string \<Rightarrow> exn + string option) \<Rightarrow> (string \<Rightarrow> json option) \<Rightarrow>
     (string \<Rightarrow> pyfloat option) \<Rightarrow> string \<Rightarrow> source list \<Rightarrow> validated_metric list" where
  "extract_metrics create_prompt complete_json json_loads str_to_float company_name sources =
     (let prompt = create_prompt company_name (combined_content sources)
      in case extraction_attempt complete_json json_loads str_to_float prompt of
           Inr validated_metrics \<Rightarrow> validated_metrics
         | Inl e \<Rightarrow>
             if e = JSONDecodeError then get_default_metrics
             else get_default_metrics)"

section \<open>The cache gate (database/db_manager.py)\<close>

text \<open>
  The four tables, each a list of rows, with the columns that the \<open>INSERT\<close> statements
  of db_manager.py write. A time is a number of microseconds, the resolution of
  \<open>datetime\<close>; the \<open>research_date\<close> column holds the text of a \<open>datetime\<close> and
  \<open>component_scores_json\<close> the text of a dict, and the rows below hold the time and the
  dict themselves. The range of \<open>datetime\<close> (years 1 to 9999) is not modelled. Where
  \<open>ORDER BY\<close> leaves rows with equal keys in an order of the engine's choice, the model
  keeps them in the order of the table.
\<close>

type_synonym timestamp = int

record company =
  co_id :: int
  co_name :: string
  co_research_date :: timestamp
  co_last_updated :: timestamp

record source_row =
  sr_company_id :: int
  sr_url :: string
  sr_content :: string
  sr_scraped_at :: timestamp

record metric_row =
  mr_company_id :: int
  mr_category :: string
  mr_metric_name :: string
  mr_value :: rat
  mr_confidence :: rat
  mr_extracted_at :: timestamp

record score_row =
  sc_company_id :: int
  sc_final_score :: rat
  sc_environmental_score :: "rat option"
  sc_social_score :: "rat option"
  sc_governance_score :: "rat option"
  sc_component_scores :: "(string \<times> rat) list"
  sc_calculated_at :: timestamp

record database =
  companies :: "company list"
  research_sources :: "source_row list"
  sustainability_metrics :: "metric_row list"
  sustainability_scores :: "score_row list"

text \<open>\<open>SELECT * FROM companies WHERE name = ?\<close> and \<open>fetchone\<close>.\<close>

definition get_company :: "database \<Rightarrow> string \<Rightarrow> company option" where
  "get_company db company_name = find (\<lambda>c. co_name c = company_name) (companies db)"

text \<open>\<open>... WHERE company_id = ? ORDER BY scraped_at DESC\<close>.\<close>

definition get_research_sources :: "database \<Rightarrow> int \<Rightarrow> source_row list" where
  "get_research_sources db company_id =
     sort_key (\<lambda>r. - sr_scraped_at r)
       (filter (\<lambda>r. sr_company_id r = company_id) (research_sources db))"

text \<open>\<open>... WHERE company_id = ? ORDER BY category, metric_name\<close>.\<close>

definition get_metrics :: "database \<Rightarrow> int \<Rightarrow> metric_row list" where
  "get_metrics db company_id =
     sort_key (\<lambda>r. (mr_category r, mr_metric_name r))
       (filter (\<lambda>r. mr_company_id r = company_id) (sustainability_metrics db))"

text \<open>\<open>... WHERE company_id = ? ORDER BY calculated_at DESC LIMIT 1\<close> and \<open>fetchone\<close>.\<close>

definition get_latest_score :: "database \<Rightarrow> int \<Rightarrow> score_row option" where
  "get_latest_score db company_id =
     (case sort_key (\<lambda>r. - sc_calculated_at r)
             (filter (\<lambda>r. sc_company_id r = company_id) (sustainability_scores db)) of
        [] \<Rightarrow> None
      | row # rest \<Rightarrow> Some row)"

text \<open>\<open>timedelta(days=days)\<close> in microseconds.\<close>

definition timedelta_days :: "int \<Rightarrow> int" where
  "timedelta_days days = days * 86400000000"

text \<open>\<open>get_recent_analysis\<close>; \<open>now\<close> is the reading of \<open>datetime.now()\<close>.\<close>

definition get_recent_analysis ::
  "database \<Rightarrow> timestamp \<Rightarrow> string \<Rightarrow> int \<Rightarrow>
     (company \<times> source_row list \<times> metric_row list \<times> score_row) option" where
  "get_recent_analysis db now company_name days =
     (case get_company db company_name of
        None \<Rightarrow> None
      | Some company \<Rightarrow>
          (let research_date = co_research_date company;
               cache_expiry = now - timedelta_days days
           in if research_date < cache_expiry then None
              else
                (let sources = get_research_sources db (co_id company);
                     metrics = get_metrics db (co_id company);
                     scores = get_latest_score db (co_id company)
                 in if sources = [] \<or> scores = None then None
                    else
                      (case scores of
                         None \<Rightarrow> None
                       | Some score \<Rightarrow> Some (company, sources, metrics, score)))))"

section \<open>Notions used in the statements\<close>

text \<open>
  A metric of the data model carries its four fields; a valid one has its category among
  the three, its value in [0, 100] and its confidence in [0, 1].
\<close>

definition has_all_fields :: "metric \<Rightarrow> bool" where
  "has_all_fields m =
     (m_category m \<noteq> None \<and> m_metric_name m \<noteq> None \<and> m_value m \<noteq> None
      \<and> m_confidence m \<noteq> None)"

definition valid_metric :: "metric \<Rightarrow> bool" where
  "valid_metric m =
     (has_all_fields m
      \<and> the (m_category m) \<in> {''Environmental'', ''Social'', ''Governance''}
      \<and> 0 \<le> the (m_value m) \<and> the (m_value m) \<le> 100
      \<and> 0 \<le> the (m_confidence m) \<and> the (m_confidence m) \<le> 1)"

text \<open>The records of one category, in the order of the list.\<close>

definition of_category :: "string \<Rightarrow> metric list \<Rightarrow> metric list" where
  "of_category category ms = filter (\<lambda>m. m_category m = Some category) ms"

text \<open>The detail entry (name, value, confidence) of a metric that carries its fields.\<close>

definition detail_of :: "metric \<Rightarrow> detail" where
  "detail_of m =
     \<lparr>d_name = the (m_metric_name m), d_value = the (m_value m),
      d_confidence = the (m_confidence m)\<rparr>"






text \<open>
  The recommendation lines: the overall header, and the lines of one category, which are
  its \<open>Priority\<close> line and then at most two \<open>FocusOn\<close> lines.
\<close>

definition overall_header :: "rat \<Rightarrow> recommendation list" where
  "overall_header final_score =
     (if final_score < 50 then [Critical]
      else if final_score < 70 then [Important]
      else [])"

definition category_lines :: "string \<Rightarrow> category_score \<Rightarrow> recommendation list" where
  "category_lines category data =
     (if c_score data < 60 then [Priority category (c_score data)] else [])
     @ map (\<lambda>m. FocusOn (d_name m) category (d_value m))
         (take 2 (filter (\<lambda>m. d_value m < 50) (c_metrics data)))"

text \<open>
  A score structure for the examples of the recommendations: every category is below 60
  and has three metrics below 50.
\<close>

definition example_scores :: final_result where
  "example_scores =
     \<lparr>f_final_score = 39, f_score_level = ''Poor'', f_confidence = 1,
      f_environmental_score = 30, f_social_score = 40, f_governance_score = 52,
      f_category_breakdown =
        [(''Environmental'',
          \<lparr>c_score = 30, c_confidence = 1, c_metric_count = 3,
           c_metrics = [\<lparr>d_name = ''Waste Management'', d_value = 45, d_confidence = 1\<rparr>,
                        \<lparr>d_name = ''Water Conservation'', d_value = 10, d_confidence = 1\<rparr>,
                        \<lparr>d_name = ''Sustainable Materials'', d_value = 35, d_confidence = 1\<rparr>]\<rparr>),
         (''Social'',
          \<lparr>c_score = 40, c_confidence = 1, c_metric_count = 3,
           c_metrics = [\<lparr>d_name = ''Labor Practices'', d_value = 41, d_confidence = 1\<rparr>,
                        \<lparr>d_name = ''Community Impact'', d_value = 42, d_confidence = 1\<rparr>,
                        \<lparr>d_name = ''Human Rights'', d_value = 37, d_confidence = 1\<rparr>]\<rparr>),
         (''Governance'',
          \<lparr>c_score = 52, c_confidence = 1, c_metric_count = 3,
           c_metrics = [\<lparr>d_name = ''Board Independence'', d_value = 49, d_confidence = 1\<rparr>,
                        \<lparr>d_name = ''Risk Management'', d_value = 48, d_confidence = 1\<rparr>,
                        \<lparr>d_name = ''Stakeholder Engagement'', d_value = 47, d_confidence = 1\<rparr>]\<rparr>)],
      f_component_scores = [],
      f_calculated_at = ''2024-01-01T00:00:00''\<rparr>"

text \<open>
  A database for the examples of the cache gate: Tesla, researched at time 0, with one
  source, one score and no metric rows; Acme, researched five days later, with a score
  and no source.
\<close>

definition example_db :: database where
  "example_db =
     \<lparr>companies =
        [\<lparr>co_id = 1, co_name = ''Tesla'', co_research_date = 0, co_last_updated = 0\<rparr>,
         \<lparr>co_id = 2, co_name = ''Acme'', co_research_date = timedelta_days 5,
           co_last_updated = timedelta_days 5\<rparr>],
      research_sources =
        [\<lparr>sr_company_id = 1, sr_url = ''https://tesla.com/impact'',
           sr_content = ''Impact report'', sr_scraped_at = 0\<rparr>],
      sustainability_metrics = [],
      sustainability_scores =
        [\<lparr>sc_company_id = 1, sc_final_score = 143 / 2, sc_environmental_score = Some 80,
           sc_social_score = Some 70, sc_governance_score = Some 60,
           sc_component_scores = [], sc_calculated_at = 0\<rparr>,
         \<lparr>sc_company_id = 2, sc_final_score = 50, sc_environmental_score = Some 50,
           sc_social_score = Some 50, sc_governance_score = Some 50,
           sc_component_scores = [], sc_calculated_at = timedelta_days 5\<rparr>]\<rparr>"

section \<open>Rounding\<close>

lemma round_half_even_unique:
  "of_int n - 1 / 2 < x \<Longrightarrow> x < of_int n + 1 / 2 \<Longrightarrow> round_half_even x = n"
  unfolding round_half_even_def Let_def
  by (auto; linarith)

lemma round_half_even_of_int [simp]: "round_half_even (of_int n) = n"
  by (rule round_half_even_unique) simp_all

lemma round_half_even_cases: "round_half_even x = \<lfloor>x\<rfloor> \<or> round_half_even x = \<lfloor>x\<rfloor> + 1"
  by (simp add: round_half_even_def Let_def)

lemma round_half_even_le: "x \<le> of_int n \<Longrightarrow> round_half_even x \<le> n"
proof (cases "x = of_int n")
  case True
  then show ?thesis by simp
next
  case False
  assume "x \<le> of_int n"
  with False have "x < of_int n" by simp
  then have "\<lfloor>x\<rfloor> < n" by (simp add: floor_less_iff)
  with round_half_even_cases [of x] show ?thesis by auto
qed

lemma round_half_even_ge: "of_int n \<le> x \<Longrightarrow> n \<le> round_half_even x"
proof -
  assume "of_int n \<le> x"
  then have "n \<le> \<lfloor>x\<rfloor>" by (simp add: le_floor_iff)
  with round_half_even_cases [of x] show ?thesis by auto
qed

lemma round2_of_int [simp]: "round2 (of_int n) = of_int n"
proof -
  have "round_half_even (of_int n * 100) = n * 100"
    using round_half_even_of_int [of "n * 100"] by simp
  then show ?thesis by (simp add: round2_def)
qed

lemma round2_numeral [simp]: "round2 (numeral k) = numeral k"
  using round2_of_int [of "numeral k"] by simp

lemma round2_0 [simp]: "round2 0 = 0"
  using round2_of_int [of 0] by simp

lemma round2_1 [simp]: "round2 1 = 1"
  using round2_of_int [of 1] by simp

lemma round2_le: "x \<le> of_int n \<Longrightarrow> round2 x \<le> of_int n"
proof -
  assume "x \<le> of_int n"
  then have "x * 100 \<le> of_int (n * 100)" by simp
  then have "round_half_even (x * 100) \<le> n * 100" by (rule round_half_even_le)
  then have "(of_int (round_half_even (x * 100)) :: rat) \<le> of_int (n * 100)"
    by (simp only: of_int_le_iff)
  then show ?thesis by (simp add: round2_def)
qed

lemma round2_ge: "of_int n \<le> x \<Longrightarrow> of_int n \<le> round2 x"
proof -
  assume "of_int n \<le> x"
  then have "of_int (n * 100) \<le> x * 100" by simp
  then have "n * 100 \<le> round_half_even (x * 100)" by (rule round_half_even_ge)
  then have "(of_int (n * 100) :: rat) \<le> of_int (round_half_even (x * 100))"
    by (simp only: of_int_le_iff)
  then show ?thesis by (simp add: round2_def)
qed

lemma round2_range: "0 \<le> x \<Longrightarrow> x \<le> 100 \<Longrightarrow> 0 \<le> round2 x \<and> round2 x \<le> 100"
  using round2_ge [of 0 x] round2_le [of x 100] by simp

lemma round2_unit_range: "0 \<le> x \<Longrightarrow> x \<le> 1 \<Longrightarrow> 0 \<le> round2 x \<and> round2 x \<le> 1"
  using round2_ge [of 0 x] round2_le [of x 1] by simp

lemma round2_examples:
  "round2 (8499 / 100) = 8499 / 100"
  "round2 (33999 / 400) = 85"
  "round2 (143 / 2) = 143 / 2"
  "round2 (1 / 2) = 1 / 2"
  by code_simp+


section \<open>Score levels: the scorer against the presentation layer\<close>

lemma scorer_get_score_level_eq:
  "scorer_get_score_level s =
     (if 85 \<le> s \<and> s \<le> 100 then ''Excellent''
      else if 70 \<le> s \<and> s \<le> 84 then ''Good''
      else if 50 \<le> s \<and> s \<le> 69 then ''Fair''
      else if 30 \<le> s \<and> s \<le> 49 then ''Poor''
      else if 0 \<le> s \<and> s \<le> 29 then ''Very Poor''
      else ''Unknown'')"
  by (simp add: scorer_get_score_level_def SCORE_LEVELS_def)

lemma presentation_levels_equal: "pdf_get_score_level s = get_score_level s"
  by (simp add: pdf_get_score_level_def get_score_level_def)

text \<open>
  C2, counterexample. At the score 101 the PDF generator and the sidebar say
  \<open>"Excellent"\<close> and the scorer says \<open>"Unknown"\<close>; at the score 84.5 they say
  \<open>"Good"\<close> and the scorer says \<open>"Unknown"\<close>. The three implementations do not
  compute the same level for every numeric score.
\<close>

theorem presentation_levels_differ_from_scorer:
  "pdf_get_score_level 101 = ''Excellent'' \<and> get_score_level 101 = ''Excellent''
     \<and> scorer_get_score_level 101 = ''Unknown''
     \<and> pdf_get_score_level (169 / 2) = ''Good'' \<and> get_score_level (169 / 2) = ''Good''
     \<and> scorer_get_score_level (169 / 2) = ''Unknown''"
  by (simp add: pdf_get_score_level_def get_score_level_def scorer_get_score_level_eq)

text \<open>
  C2, as amended. The PDF generator and the sidebar compute the same level for every score.
  For a score inside one of the five closed ranges of \<open>SCORE_LEVELS\<close>, that is in
  [85, 100], [70, 84], [50, 69], [30, 49] or [0, 29], both equal the level of the scorer.
  For a score below 0 or above 100 the scorer answers \<open>"Unknown"\<close>, where the
  presentation layer answers \<open>"Very Poor"\<close> and \<open>"Excellent"\<close>.
\<close>

theorem levels_agree_on_score_ranges:
  "pdf_get_score_level s = get_score_level s
   \<and> ((85 \<le> s \<and> s \<le> 100) \<or> (70 \<le> s \<and> s \<le> 84) \<or> (50 \<le> s \<and> s \<le> 69)
        \<or> (30 \<le> s \<and> s \<le> 49) \<or> (0 \<le> s \<and> s \<le> 29)
      \<longrightarrow> pdf_get_score_level s = scorer_get_score_level s
          \<and> get_score_level s = scorer_get_score_level s)
   \<and> (s < 0 \<longrightarrow> scorer_get_score_level s = ''Unknown'' \<and> pdf_get_score_level s = ''Very Poor'')
   \<and> (100 < s \<longrightarrow> scorer_get_score_level s = ''Unknown'' \<and> pdf_get_score_level s = ''Excellent'')"
  by (simp add: pdf_get_score_level_def get_score_level_def scorer_get_score_level_eq)

theorem levels_agree_on_score_ranges_witness:
  "(70 \<le> (78 :: rat) \<and> (78 :: rat) \<le> 84)
   \<and> pdf_get_score_level 78 = ''Good'' \<and> get_score_level 78 = ''Good''
   \<and> scorer_get_score_level 78 = ''Good''
   \<and> (-1 :: rat) < 0 \<and> scorer_get_score_level (-1) = ''Unknown''
   \<and> pdf_get_score_level (-1) = ''Very Poor''
   \<and> (100 :: rat) < 101 \<and> pdf_get_score_level 101 = ''Excellent''"
  using levels_agree_on_score_ranges [of 78] levels_agree_on_score_ranges [of "-1"]
    levels_agree_on_score_ranges [of 101]
  by (simp add: pdf_get_score_level_def)

section \<open>calculate_category_score\<close>

text \<open>
  On metrics that carry their four fields nothing raises, the \<open>.get\<close> defaults are never
  used, and the function is the following expression of the sums over the records of the
  category.
\<close>

lemma filter_category_eq:
  "list_all (\<lambda>m. m_category m \<noteq> None) ms \<Longrightarrow> filter_category ms category = Inr (of_category category ms)"
  by (induction ms) (auto simp: of_category_def)

lemma metric_details_eq:
  "list_all has_all_fields ms \<Longrightarrow> metric_details ms = Inr (map detail_of ms)"
  by (induction ms) (auto simp: has_all_fields_def metric_detail_def detail_of_def)

lemma weighted_totals_eq:
  "list_all has_all_fields ms \<Longrightarrow>
     weighted_totals ms (a, b) =
       (a + (\<Sum>m\<leftarrow>ms. the (m_value m) * the (m_confidence m)),
        b + (\<Sum>m\<leftarrow>ms. the (m_confidence m)))"
  by (induction ms arbitrary: a b) (auto simp: has_all_fields_def)

lemma list_all_of_category:
  "list_all P ms \<Longrightarrow> list_all P (of_category category ms)"
  by (induction ms) (auto simp: of_category_def)

lemma calculate_category_score_eq:
  assumes "list_all has_all_fields ms"
  shows "calculate_category_score ms category =
     (let fm = of_category category ms;
          sc = (\<Sum>m\<leftarrow>fm. the (m_confidence m));
          sv = (\<Sum>m\<leftarrow>fm. the (m_value m) * the (m_confidence m))
      in if fm = [] then Inr \<lparr>c_score = 50, c_confidence = 0, c_metric_count = 0, c_metrics = []\<rparr>
         else if 0 < sc then
           Inr \<lparr>c_score = round2 (sv / sc), c_confidence = round2 (sc / of_nat (length fm)),
                c_metric_count = length fm, c_metrics = map detail_of fm\<rparr>
         else Inr \<lparr>c_score = 50, c_confidence = 0, c_metric_count = length fm,
                   c_metrics = map detail_of fm\<rparr>)"
proof -
  have cat: "list_all (\<lambda>m. m_category m \<noteq> None) ms"
    using assms by (induction ms) (auto simp: has_all_fields_def)
  have fm: "list_all has_all_fields (of_category category ms)"
    using assms by (rule list_all_of_category)
  show ?thesis
    by (simp add: calculate_category_score_def filter_category_eq [OF cat]
        weighted_totals_eq [OF fm] metric_details_eq [OF fm] Let_def)
qed



text \<open>
  C3. A record of the target category without its \<open>value\<close> key, or without its
  \<open>confidence\<close> key, passes the loop of step 3, where \<open>.get\<close> supplies 50 and 0.5, and
  then makes step 5 raise \<open>KeyError\<close>: \<open>calculate_category_score\<close> does not return.
\<close>

theorem category_score_raises_on_missing_field:
  "weighted_totals
     [\<lparr>m_category = Some ''Environmental'', m_metric_name = Some ''A'',
       m_value = None, m_confidence = Some (9 / 10)\<rparr>] (0, 0) = (50 * (9 / 10), 9 / 10)
   \<and> calculate_category_score
     [\<lparr>m_category = Some ''Environmental'', m_metric_name = Some ''A'',
       m_value = None, m_confidence = Some (9 / 10)\<rparr>] ''Environmental''
     = Inl (KeyError ''value'')
   \<and> calculate_category_score
     [\<lparr>m_category = Some ''Environmental'', m_metric_name = Some ''A'',
       m_value = Some 80, m_confidence = None\<rparr>] ''Environmental''
     = Inl (KeyError ''confidence'')"
  by (simp add: calculate_category_score_def metric_detail_def)

section \<open>calculate_final_score\<close>

lemma score_categories_weights:
  assumes "calculate_category_score ms ''Environmental'' = Inr e"
    and "calculate_category_score ms ''Social'' = Inr s"
    and "calculate_category_score ms ''Governance'' = Inr g"
  shows "score_categories ms CATEGORY_WEIGHTS ([], 0, 0) =
           Inr ([(''Environmental'', e), (''Social'', s), (''Governance'', g)],
                c_score e * (2 / 5) + c_score s * (7 / 20) + c_score g * (1 / 4), 1)"
  using assms by (simp add: CATEGORY_WEIGHTS_def)

lemma calculate_final_score_eq:
  assumes "calculate_category_score ms ''Environmental'' = Inr e"
    and "calculate_category_score ms ''Social'' = Inr s"
    and "calculate_category_score ms ''Governance'' = Inr g"
  shows "calculate_final_score now ms =
           Inr \<lparr>f_final_score =
                  round2 (c_score e * (2 / 5) + c_score s * (7 / 20) + c_score g * (1 / 4)),
                f_score_level =
                  scorer_get_score_level
                    (c_score e * (2 / 5) + c_score s * (7 / 20) + c_score g * (1 / 4)),
                f_confidence = round2 ((c_confidence e + c_confidence s + c_confidence g) / 3),
                f_environmental_score = c_score e,
                f_social_score = c_score s,
                f_governance_score = c_score g,
                f_category_breakdown =
                  [(''Environmental'', e), (''Social'', s), (''Governance'', g)],
                f_component_scores =
                  build_component_scores
                    [(''Environmental'', e), (''Social'', s), (''Governance'', g)] [],
                f_calculated_at = now\<rparr>"
  unfolding calculate_final_score_def score_categories_weights [OF assms]
  by (simp add: raw_final_score_def dict_get_def Let_def add.assoc)

lemma single_metric_score:
  "calculate_category_score
     [\<lparr>m_category = Some ''Environmental'', m_metric_name = Some a, m_value = Some x, m_confidence = Some 1\<rparr>,
      \<lparr>m_category = Some ''Social'', m_metric_name = Some b, m_value = Some y, m_confidence = Some 1\<rparr>,
      \<lparr>m_category = Some ''Governance'', m_metric_name = Some c, m_value = Some z, m_confidence = Some 1\<rparr>]
     ''Environmental'' =
   Inr \<lparr>c_score = round2 x, c_confidence = 1, c_metric_count = 1,
        c_metrics = [\<lparr>d_name = a, d_value = x, d_confidence = 1\<rparr>]\<rparr>"
  "calculate_category_score
     [\<lparr>m_category = Some ''Environmental'', m_metric_name = Some a, m_value = Some x, m_confidence = Some 1\<rparr>,
      \<lparr>m_category = Some ''Social'', m_metric_name = Some b, m_value = Some y, m_confidence = Some 1\<rparr>,
      \<lparr>m_category = Some ''Governance'', m_metric_name = Some c, m_value = Some z, m_confidence = Some 1\<rparr>]
     ''Social'' =
   Inr \<lparr>c_score = round2 y, c_confidence = 1, c_metric_count = 1,
        c_metrics = [\<lparr>d_name = b, d_value = y, d_confidence = 1\<rparr>]\<rparr>"
  "calculate_category_score
     [\<lparr>m_category = Some ''Environmental'', m_metric_name = Some a, m_value = Some x, m_confidence = Some 1\<rparr>,
      \<lparr>m_category = Some ''Social'', m_metric_name = Some b, m_value = Some y, m_confidence = Some 1\<rparr>,
      \<lparr>m_category = Some ''Governance'', m_metric_name = Some c, m_value = Some z, m_confidence = Some 1\<rparr>]
     ''Governance'' =
   Inr \<lparr>c_score = round2 z, c_confidence = 1, c_metric_count = 1,
        c_metrics = [\<lparr>d_name = c, d_value = z, d_confidence = 1\<rparr>]\<rparr>"
  by (simp_all add: calculate_category_score_def metric_detail_def)

text \<open>
  On valid metrics every category score and the final score lie in [0, 100], and every
  confidence in [0, 1].
\<close>

lemma valid_sums:
  "list_all valid_metric ms \<Longrightarrow>
     0 \<le> (\<Sum>m\<leftarrow>ms. the (m_value m) * the (m_confidence m))
     \<and> (\<Sum>m\<leftarrow>ms. the (m_value m) * the (m_confidence m)) \<le> 100 * (\<Sum>m\<leftarrow>ms. the (m_confidence m))
     \<and> 0 \<le> (\<Sum>m\<leftarrow>ms. the (m_confidence m))
     \<and> (\<Sum>m\<leftarrow>ms. the (m_confidence m)) \<le> of_nat (length ms)"
proof (induction ms)
  case Nil
  then show ?case by simp
next
  case (Cons m ms)
  then have v: "0 \<le> the (m_value m)" "the (m_value m) \<le> 100"
    and c: "0 \<le> the (m_confidence m)" "the (m_confidence m) \<le> 1"
    by (simp_all add: valid_metric_def)
  have "the (m_value m) * the (m_confidence m) \<le> 100 * the (m_confidence m)"
    using v c by (simp add: mult_right_mono)
  moreover have "0 \<le> the (m_value m) * the (m_confidence m)"
    using v c by simp
  ultimately show ?case using Cons c by (simp add: algebra_simps)
qed

lemma valid_has_all_fields: "list_all valid_metric ms \<Longrightarrow> list_all has_all_fields ms"
  by (induction ms) (auto simp: valid_metric_def)

lemma category_score_range:
  assumes "list_all valid_metric ms"
  shows "\<exists>r. calculate_category_score ms category = Inr r
           \<and> 0 \<le> c_score r \<and> c_score r \<le> 100 \<and> 0 \<le> c_confidence r \<and> c_confidence r \<le> 1"
proof -
  let ?fm = "of_category category ms"
  let ?sc = "\<Sum>m\<leftarrow>?fm. the (m_confidence m)"
  let ?sv = "\<Sum>m\<leftarrow>?fm. the (m_value m) * the (m_confidence m)"
  have "list_all valid_metric ?fm" using assms by (rule list_all_of_category)
  from valid_sums [OF this]
  have s: "0 \<le> ?sv" "?sv \<le> 100 * ?sc" "0 \<le> ?sc" "?sc \<le> of_nat (length ?fm)" by simp_all
  show ?thesis
  proof (cases "?fm \<noteq> [] \<and> 0 < ?sc")
    case True
    then have n: "(0::rat) < of_nat (length ?fm)" by simp
    have "0 \<le> ?sv / ?sc" "?sv / ?sc \<le> 100"
      using s True by (simp_all add: divide_le_eq)
    then have a: "0 \<le> round2 (?sv / ?sc) \<and> round2 (?sv / ?sc) \<le> 100" by (rule round2_range)
    have "0 \<le> ?sc / of_nat (length ?fm)" "?sc / of_nat (length ?fm) \<le> 1"
      using s n by (simp_all add: divide_le_eq)
    then have b: "0 \<le> round2 (?sc / of_nat (length ?fm)) \<and> round2 (?sc / of_nat (length ?fm)) \<le> 1"
      by (rule round2_unit_range)
    show ?thesis
      using True a b
      by (simp add: calculate_category_score_eq [OF valid_has_all_fields [OF assms]] Let_def)
  next
    case False
    then show ?thesis
      by (auto simp add: calculate_category_score_eq [OF valid_has_all_fields [OF assms]] Let_def)
  qed
qed

lemma final_score_range:
  assumes "list_all valid_metric ms"
  shows "\<exists>r. calculate_final_score now ms = Inr r \<and> 0 \<le> f_final_score r \<and> f_final_score r \<le> 100
            \<and> 0 \<le> f_confidence r \<and> f_confidence r \<le> 1"
proof -
  from category_score_range [OF assms, of "''Environmental''"] obtain e where
    e: "calculate_category_score ms ''Environmental'' = Inr e"
       "0 \<le> c_score e" "c_score e \<le> 100" "0 \<le> c_confidence e" "c_confidence e \<le> 1" by blast
  from category_score_range [OF assms, of "''Social''"] obtain s where
    s: "calculate_category_score ms ''Social'' = Inr s"
       "0 \<le> c_score s" "c_score s \<le> 100" "0 \<le> c_confidence s" "c_confidence s \<le> 1" by blast
  from category_score_range [OF assms, of "''Governance''"] obtain g where
    g: "calculate_category_score ms ''Governance'' = Inr g"
       "0 \<le> c_score g" "c_score g \<le> 100" "0 \<le> c_confidence g" "c_confidence g \<le> 1" by blast
  let ?w = "c_score e * (2 / 5) + c_score s * (7 / 20) + c_score g * (1 / 4)"
  let ?c = "(c_confidence e + c_confidence s + c_confidence g) / 3"
  have "0 \<le> ?w" "?w \<le> 100" using e s g by simp_all
  then have w: "0 \<le> round2 ?w \<and> round2 ?w \<le> 100" by (rule round2_range)
  have "0 \<le> ?c" "?c \<le> 1" using e s g by simp_all
  then have c: "0 \<le> round2 ?c \<and> round2 ?c \<le> 1" by (rule round2_unit_range)
  show ?thesis
    using w c by (simp add: calculate_final_score_eq [OF e(1) s(1) g(1)])
qed




text \<open>
  C1. The final score 84.99 has no level: it lies between the ranges (70, 84) and
  (85, 100) of \<open>SCORE_LEVELS\<close>, and \<open>_get_score_level\<close> returns \<open>"Unknown"\<close>. Three valid
  metrics of value 84.99 and confidence 1.0, one per category, give the final score 84.99
  and the level \<open>"Unknown"\<close>. The scores 85.0, 50.0 and 29.0 get \<open>"Excellent"\<close>,
  \<open>"Fair"\<close> and \<open>"Very Poor"\<close>.
\<close>

theorem score_level_unknown_at_84_99:
  "scorer_get_score_level 85 = ''Excellent''
   \<and> scorer_get_score_level (8499 / 100) = ''Unknown''
   \<and> scorer_get_score_level 50 = ''Fair''
   \<and> scorer_get_score_level 29 = ''Very Poor''
   \<and> list_all valid_metric
        [\<lparr>m_category = Some ''Environmental'', m_metric_name = Some ''Waste Management'',
          m_value = Some (8499 / 100), m_confidence = Some 1\<rparr>,
         \<lparr>m_category = Some ''Social'', m_metric_name = Some ''Human Rights'',
          m_value = Some (8499 / 100), m_confidence = Some 1\<rparr>,
         \<lparr>m_category = Some ''Governance'', m_metric_name = Some ''Risk Management'',
          m_value = Some (8499 / 100), m_confidence = Some 1\<rparr>]
   \<and> (\<exists>r. calculate_final_score now
        [\<lparr>m_category = Some ''Environmental'', m_metric_name = Some ''Waste Management'',
          m_value = Some (8499 / 100), m_confidence = Some 1\<rparr>,
         \<lparr>m_category = Some ''Social'', m_metric_name = Some ''Human Rights'',
          m_value = Some (8499 / 100), m_confidence = Some 1\<rparr>,
         \<lparr>m_category = Some ''Governance'', m_metric_name = Some ''Risk Management'',
          m_value = Some (8499 / 100), m_confidence = Some 1\<rparr>] = Inr r
        \<and> f_final_score r = 8499 / 100 \<and> f_score_level r = ''Unknown'')"
  by (simp add: calculate_final_score_eq [OF single_metric_score] scorer_get_score_level_eq
      valid_metric_def has_all_fields_def round2_examples)

text \<open>
  C10. \<open>score_level\<close> is computed from the unrounded weighted average, and
  \<open>final_score\<close> is that average rounded to 2 decimal places. For the valid metrics below
  the category scores are 85.0, 85.0 and 84.99, the average is 84.9975, the returned
  \<open>final_score\<close> is 85.0, and the returned level, computed from 84.9975, is not the level
  of 85.0.
\<close>

theorem score_level_not_from_returned_score:
  "list_all valid_metric
        [\<lparr>m_category = Some ''Environmental'', m_metric_name = Some ''Waste Management'',
          m_value = Some 85, m_confidence = Some 1\<rparr>,
         \<lparr>m_category = Some ''Social'', m_metric_name = Some ''Human Rights'',
          m_value = Some 85, m_confidence = Some 1\<rparr>,
         \<lparr>m_category = Some ''Governance'', m_metric_name = Some ''Risk Management'',
          m_value = Some (8499 / 100), m_confidence = Some 1\<rparr>]
   \<and> (\<exists>r. calculate_final_score now
        [\<lparr>m_category = Some ''Environmental'', m_metric_name = Some ''Waste Management'',
          m_value = Some 85, m_confidence = Some 1\<rparr>,
         \<lparr>m_category = Some ''Social'', m_metric_name = Some ''Human Rights'',
          m_value = Some 85, m_confidence = Some 1\<rparr>,
         \<lparr>m_category = Some ''Governance'', m_metric_name = Some ''Risk Management'',
          m_value = Some (8499 / 100), m_confidence = Some 1\<rparr>] = Inr r
        \<and> f_environmental_score r = 85 \<and> f_social_score r = 85
        \<and> f_governance_score r = 8499 / 100
        \<and> 85 * (2 / 5) + 85 * (7 / 20) + 8499 / 100 * (1 / 4) = (33999 / 400 :: rat)
        \<and> f_final_score r = 85
        \<and> f_score_level r = scorer_get_score_level (33999 / 400)
        \<and> f_score_level r \<noteq> scorer_get_score_level (f_final_score r))"
  by (simp add: calculate_final_score_eq [OF single_metric_score] scorer_get_score_level_eq
      valid_metric_def has_all_fields_def round2_examples)

section \<open>The cache gate\<close>

text \<open>What the three queries say about the tables.\<close>

lemma get_company_None_iff:
  "get_company db company_name = None \<longleftrightarrow> company_name \<notin> co_name ` set (companies db)"
  by (auto simp: get_company_def find_None_iff)

lemma get_company_SomeD:
  "get_company db company_name = Some c \<Longrightarrow> c \<in> set (companies db) \<and> co_name c = company_name"
  by (auto simp: get_company_def find_Some_iff)

lemma get_research_sources_empty_iff:
  "get_research_sources db i = [] \<longleftrightarrow> i \<notin> sr_company_id ` set (research_sources db)"
proof -
  have "get_research_sources db i = [] \<longleftrightarrow>
          set (filter (\<lambda>r. sr_company_id r = i) (research_sources db)) = {}"
    unfolding get_research_sources_def by (metis set_empty set_sort)
  then show ?thesis by auto
qed

lemma get_latest_score_None_iff:
  "get_latest_score db i = None \<longleftrightarrow> i \<notin> sc_company_id ` set (sustainability_scores db)"
proof -
  have "get_latest_score db i = None \<longleftrightarrow>
          set (filter (\<lambda>r. sc_company_id r = i) (sustainability_scores db)) = {}"
    unfolding get_latest_score_def by (metis (no_types, lifting) list.simps(4,5) neq_Nil_conv option.distinct(1) set_empty set_sort)
  then show ?thesis by auto
qed

text \<open>
  C6. \<open>get_recent_analysis\<close> returns \<open>None\<close> exactly when the company is absent, or
  its \<open>research_date\<close> is older than \<open>now\<close> minus \<open>days\<close>, or its source list is empty,
  or it has no score record; otherwise it returns the bundle of the company, its sources,
  its metrics and its latest score, also when the metric list is empty. Researched 8 days
  ago with a 7-day window: \<open>None\<close>. Researched 6 days ago with sources and a score: the
  bundle. Researched 1 day ago without sources: \<open>None\<close>.
\<close>

theorem cache_gate_decision:
  "(get_recent_analysis db now company_name days = None) =
     (case get_company db company_name of
        None \<Rightarrow> True
      | Some c \<Rightarrow>
          co_research_date c < now - timedelta_days days
          \<or> get_research_sources db (co_id c) = []
          \<or> get_latest_score db (co_id c) = None)
   \<and> (get_company db company_name = Some c
        \<and> \<not> co_research_date c < now - timedelta_days days
        \<and> get_research_sources db (co_id c) \<noteq> []
        \<and> get_latest_score db (co_id c) = Some score
      \<longrightarrow> get_recent_analysis db now company_name days =
            Some (c, get_research_sources db (co_id c), get_metrics db (co_id c), score))
   \<and> (get_company db company_name = Some c
        \<and> co_research_date c = now - timedelta_days 8
      \<longrightarrow> get_recent_analysis db now company_name 7 = None)
   \<and> (get_company db company_name = Some c
        \<and> co_research_date c = now - timedelta_days 6
        \<and> get_research_sources db (co_id c) \<noteq> []
        \<and> get_latest_score db (co_id c) = Some score
      \<longrightarrow> get_recent_analysis db now company_name 7 =
            Some (c, get_research_sources db (co_id c), get_metrics db (co_id c), score))
   \<and> (get_company db company_name = Some c
        \<and> co_research_date c = now - timedelta_days 1
        \<and> get_research_sources db (co_id c) = []
      \<longrightarrow> get_recent_analysis db now company_name 7 = None)
   \<and> (get_company db company_name = Some c
        \<and> \<not> co_research_date c < now - timedelta_days days
        \<and> get_research_sources db (co_id c) \<noteq> []
        \<and> get_latest_score db (co_id c) = Some score
        \<and> get_metrics db (co_id c) = []
      \<longrightarrow> get_recent_analysis db now company_name days =
            Some (c, get_research_sources db (co_id c), [], score))"
  by (auto simp: get_recent_analysis_def timedelta_days_def Let_def split: option.splits)


theorem cache_gate_decision_witness:
  "get_recent_analysis example_db (timedelta_days 8) ''Tesla'' 7 = None
   \<and> get_recent_analysis example_db (timedelta_days 6) ''Tesla'' 7 =
       Some (\<lparr>co_id = 1, co_name = ''Tesla'', co_research_date = 0, co_last_updated = 0\<rparr>,
             [\<lparr>sr_company_id = 1, sr_url = ''https://tesla.com/impact'',
                sr_content = ''Impact report'', sr_scraped_at = 0\<rparr>],
             [],
             \<lparr>sc_company_id = 1, sc_final_score = 143 / 2, sc_environmental_score = Some 80,
               sc_social_score = Some 70, sc_governance_score = Some 60,
               sc_component_scores = [], sc_calculated_at = 0\<rparr>)
   \<and> get_recent_analysis example_db (timedelta_days 6) ''Acme'' 7 = None
   \<and> get_recent_analysis example_db (timedelta_days 6) ''Nokia'' 7 = None"
proof -
  let ?tesla = "\<lparr>co_id = 1, co_name = ''Tesla'', co_research_date = 0, co_last_updated = 0\<rparr>"
  let ?acme = "\<lparr>co_id = 2, co_name = ''Acme'', co_research_date = timedelta_days 5,
                 co_last_updated = timedelta_days 5\<rparr>"
  let ?score = "\<lparr>sc_company_id = 1, sc_final_score = 143 / 2, sc_environmental_score = Some 80,
               sc_social_score = Some 70, sc_governance_score = Some 60,
               sc_component_scores = [], sc_calculated_at = 0\<rparr>"
  have company: "get_company example_db ''Tesla'' = Some ?tesla"
    "get_company example_db ''Acme'' = Some ?acme"
    "get_company example_db ''Nokia'' = None"
    by (simp_all add: get_company_def example_db_def)
  have rows: "get_research_sources example_db 1 =
        [\<lparr>sr_company_id = 1, sr_url = ''https://tesla.com/impact'',
           sr_content = ''Impact report'', sr_scraped_at = 0\<rparr>]"
    "get_research_sources example_db 2 = []"
    "get_metrics example_db 1 = []"
    "get_latest_score example_db 1 = Some ?score"
    by (simp_all add: get_research_sources_def get_metrics_def get_latest_score_def example_db_def)
  show ?thesis
    using cache_gate_decision [of example_db "timedelta_days 8" "''Tesla''" 7 ?tesla ?score]
      cache_gate_decision [of example_db "timedelta_days 6" "''Tesla''" 7 ?tesla ?score]
      cache_gate_decision [of example_db "timedelta_days 6" "''Acme''" 7 ?acme ?score]
      cache_gate_decision [of example_db "timedelta_days 6" "''Nokia''" 7 ?tesla ?score]
    by (simp add: company rows timedelta_days_def)
qed

section \<open>get_recommendations\<close>

lemma category_recommendations_eq:
  "dict_get (f_category_breakdown scores) category = Inr data \<Longrightarrow>
     category_recommendations scores category recs = Inr (recs @ category_lines category data)"
  by (simp add: category_recommendations_def category_lines_def Let_def)

lemma length_overall_header: "length (overall_header x) \<le> 1"
  by (simp add: overall_header_def)

lemma length_category_lines: "length (category_lines category data) \<le> 3"
  by (auto simp: category_lines_def)

lemma focus_lines_at_most_two:
  "length (filter (\<lambda>r. \<exists>n c v. r = FocusOn n c v) (category_lines category data)) \<le> 2"
  by (simp add: category_lines_def filter_map comp_def)

text \<open>
  C9. For a score structure whose breakdown has the three categories,
  \<open>get_recommendations\<close> returns at most 5 lines: the overall header when
  \<open>final_score < 70\<close> (\<open>Critical\<close> below 50, \<open>Important\<close> otherwise), first in the list and
  counted in the limit, then for Environmental, Social and Governance in this order the
  \<open>Priority\<close> line when the category's score is below 60 and at most 2 \<open>FocusOn\<close> lines
  for the category's metrics of value below 50 in their order, the whole cut to 5 entries.
\<close>

theorem recommendations_structure:
  assumes "dict_get (f_category_breakdown scores) ''Environmental'' = Inr env"
    and "dict_get (f_category_breakdown scores) ''Social'' = Inr soc"
    and "dict_get (f_category_breakdown scores) ''Governance'' = Inr gov"
  shows "\<exists>recs. get_recommendations scores = Inr recs
     \<and> length recs \<le> 5
     \<and> recs = take 5 (overall_header (f_final_score scores)
                        @ category_lines ''Environmental'' env
                        @ category_lines ''Social'' soc
                        @ category_lines ''Governance'' gov)
     \<and> (f_final_score scores < 50 \<longrightarrow> hd recs = Critical)
     \<and> (50 \<le> f_final_score scores \<and> f_final_score scores < 70 \<longrightarrow> hd recs = Important)"
  by (simp add: get_recommendations_def category_recommendations_eq [OF assms(1)]
      category_recommendations_eq [OF assms(2)] category_recommendations_eq [OF assms(3)]
      overall_header_def Let_def)

theorem recommendations_structure_witness:
  "get_recommendations example_scores =
     Inr [Critical,
          Priority ''Environmental'' 30,
          FocusOn ''Waste Management'' ''Environmental'' 45,
          FocusOn ''Water Conservation'' ''Environmental'' 10,
          Priority ''Social'' 40]"
proof -
  have bd: "dict_get (f_category_breakdown example_scores) ''Environmental'' =
      Inr \<lparr>c_score = 30, c_confidence = 1, c_metric_count = 3,
           c_metrics = [\<lparr>d_name = ''Waste Management'', d_value = 45, d_confidence = 1\<rparr>,
                        \<lparr>d_name = ''Water Conservation'', d_value = 10, d_confidence = 1\<rparr>,
                        \<lparr>d_name = ''Sustainable Materials'', d_value = 35, d_confidence = 1\<rparr>]\<rparr>"
    "dict_get (f_category_breakdown example_scores) ''Social'' =
      Inr \<lparr>c_score = 40, c_confidence = 1, c_metric_count = 3,
           c_metrics = [\<lparr>d_name = ''Labor Practices'', d_value = 41, d_confidence = 1\<rparr>,
                        \<lparr>d_name = ''Community Impact'', d_value = 42, d_confidence = 1\<rparr>,
                        \<lparr>d_name = ''Human Rights'', d_value = 37, d_confidence = 1\<rparr>]\<rparr>"
    "dict_get (f_category_breakdown example_scores) ''Governance'' =
      Inr \<lparr>c_score = 52, c_confidence = 1, c_metric_count = 3,
           c_metrics = [\<lparr>d_name = ''Board Independence'', d_value = 49, d_confidence = 1\<rparr>,
                        \<lparr>d_name = ''Risk Management'', d_value = 48, d_confidence = 1\<rparr>,
                        \<lparr>d_name = ''Stakeholder Engagement'', d_value = 47, d_confidence = 1\<rparr>]\<rparr>"
    by (simp_all add: dict_get_def example_scores_def)
  have "f_final_score example_scores = 39" by (simp add: example_scores_def)
  with recommendations_structure [OF bd] show ?thesis
    by (simp add: overall_header_def category_lines_def)
qed

text \<open>
  Every result of \<open>calculate_final_score\<close> is such a score structure.
\<close>

lemma final_score_breakdown:
  assumes "calculate_final_score now ms = Inr r"
  shows "\<exists>env soc gov. dict_get (f_category_breakdown r) ''Environmental'' = Inr env
     \<and> dict_get (f_category_breakdown r) ''Social'' = Inr soc
     \<and> dict_get (f_category_breakdown r) ''Governance'' = Inr gov"
proof -
  obtain e where e: "calculate_category_score ms ''Environmental'' = Inr e"
    using assms by (cases "calculate_category_score ms ''Environmental''")
      (simp_all add: calculate_final_score_def CATEGORY_WEIGHTS_def)
  obtain s where s: "calculate_category_score ms ''Social'' = Inr s"
    using assms e by (cases "calculate_category_score ms ''Social''")
      (simp_all add: calculate_final_score_def CATEGORY_WEIGHTS_def)
  obtain g where g: "calculate_category_score ms ''Governance'' = Inr g"
    using assms e s by (cases "calculate_category_score ms ''Governance''")
      (simp_all add: calculate_final_score_def CATEGORY_WEIGHTS_def)
  from assms show ?thesis
    unfolding calculate_final_score_eq [OF e s g] by (auto simp: dict_get_def)
qed

lemma recommendations_of_final_score:
  assumes "calculate_final_score now ms = Inr r"
  shows "\<exists>recs. get_recommendations r = Inr recs \<and> length recs \<le> 5"
proof -
  from final_score_breakdown [OF assms] obtain env soc gov where
    bd: "dict_get (f_category_breakdown r) ''Environmental'' = Inr env"
      "dict_get (f_category_breakdown r) ''Social'' = Inr soc"
      "dict_get (f_category_breakdown r) ''Governance'' = Inr gov" by blast
  show ?thesis
    by (simp add: get_recommendations_def category_recommendations_eq [OF bd(1)]
      category_recommendations_eq [OF bd(2)] category_recommendations_eq [OF bd(3)] Let_def)
qed

section \<open>_validate_metrics\<close>

text \<open>
  On a list of metric-like records the loop never raises: each record is either skipped
  or cleaned.
\<close>

lemma all_in_dict:
  "all_in ks (JObj kvs) = Inr (list_all (\<lambda>k. map_of kvs k \<noteq> None) ks)"
  by (induction ks) (auto simp: py_in_def map_of_eq_None_iff image_iff)
















text \<open>
  A record whose category is a list is outside the metric-like records: the list is
  unhashable and the membership test raises.
\<close>

lemma validator_raises_on_unhashable_category:
  "validate_metrics str_to_float
     (JArr [JObj [(''category'', JArr [JStr ''Environmental'']),
                  (''metric_name'', JStr ''Waste Management''),
                  (''value'', JNum (Fin 70)),
                  (''confidence'', JNum (Fin 1))]]) = Inl TypeError"
  by (simp add: validate_metrics_def py_iter_def validate_metric_def all_in_dict
      REQUIRED_FIELDS_def py_getitem_def in_category_weights_def)

section \<open>extract_metrics\<close>

text \<open>The default set, spelled out.\<close>

lemma default_names_loop_eq:
  "default_names_loop category names acc =
     acc @ map (\<lambda>n. \<lparr>v_category = JStr category, v_metric_name = JStr n,
                       v_value = Fin 50, v_confidence = Fin (1 / 10)\<rparr>) names"
  by (induction names arbitrary: acc) simp_all

lemma default_schema_loop_eq:
  "default_schema_loop schema acc =
     acc @ concat (map (\<lambda>(category, names).
                          map (\<lambda>n. \<lparr>v_category = JStr category, v_metric_name = JStr n,
                                      v_value = Fin 50, v_confidence = Fin (1 / 10)\<rparr>) names)
                       schema)"
  by (induction schema arbitrary: acc) (auto simp: default_names_loop_eq)

lemma get_default_metrics_eq:
  "get_default_metrics =
     concat (map (\<lambda>(category, names).
                    map (\<lambda>n. \<lparr>v_category = JStr category, v_metric_name = JStr n,
                                v_value = Fin 50, v_confidence = Fin (1 / 10)\<rparr>) names)
                 METRICS_SCHEMA)"
  by (simp add: get_default_metrics_def default_schema_loop_eq)

lemma default_metrics_names:
  "map (\<lambda>v. (v_category v, v_metric_name v)) get_default_metrics =
     [(JStr ''Environmental'', JStr ''Carbon Emissions Reduction''),
      (JStr ''Environmental'', JStr ''Renewable Energy Usage''),
      (JStr ''Environmental'', JStr ''Waste Management''),
      (JStr ''Environmental'', JStr ''Water Conservation''),
      (JStr ''Environmental'', JStr ''Sustainable Materials''),
      (JStr ''Social'', JStr ''Labor Practices''),
      (JStr ''Social'', JStr ''Diversity and Inclusion''),
      (JStr ''Social'', JStr ''Community Impact''),
      (JStr ''Social'', JStr ''Human Rights''),
      (JStr ''Social'', JStr ''Employee Well-being''),
      (JStr ''Governance'', JStr ''Board Independence''),
      (JStr ''Governance'', JStr ''Ethics and Compliance''),
      (JStr ''Governance'', JStr ''Transparency and Reporting''),
      (JStr ''Governance'', JStr ''Risk Management''),
      (JStr ''Governance'', JStr ''Stakeholder Engagement'')]"
  by (simp add: get_default_metrics_eq METRICS_SCHEMA_def)

lemma default_metrics_values:
  "list_all (\<lambda>v. v_value v = Fin 50 \<and> v_confidence v = Fin (1 / 10)) get_default_metrics"
  by (simp add: get_default_metrics_eq METRICS_SCHEMA_def)

lemma default_metrics_distinct:
  "distinct (map v_metric_name get_default_metrics)"
  by (simp add: get_default_metrics_eq METRICS_SCHEMA_def)

lemma default_metrics_per_category:
  "length (filter (\<lambda>v. v_category v = JStr ''Environmental'') get_default_metrics) = 5"
  "length (filter (\<lambda>v. v_category v = JStr ''Social'') get_default_metrics) = 5"
  "length (filter (\<lambda>v. v_category v = JStr ''Governance'') get_default_metrics) = 5"
  by (simp_all add: get_default_metrics_eq METRICS_SCHEMA_def)

lemma extract_metrics_on_failure:
  "extraction_attempt complete_json json_loads str_to_float
      (create_prompt company_name (combined_content sources)) = Inl e \<Longrightarrow>
   extract_metrics create_prompt complete_json json_loads str_to_float company_name sources
     = get_default_metrics"
  by (simp add: extract_metrics_def Let_def)

text \<open>
  C8. Whenever the \<open>try\<close> block of \<open>extract_metrics\<close> raises, because the call of the
  language model raises, or its reply is not parsable, or the parsed reply is no dict, or
  the validator raises, \<open>extract_metrics\<close> returns the default set and raises nothing.
  The default set has exactly one record for each of the fifteen metric names of
  \<open>METRICS_SCHEMA\<close>, five for each of the three categories, each record with the value
  50.0 and the confidence 0.1.
\<close>

theorem extraction_failure_gives_defaults:
  "(extraction_attempt complete_json json_loads str_to_float
        (create_prompt company_name (combined_content sources)) = Inl e
      \<longrightarrow> extract_metrics create_prompt complete_json json_loads str_to_float company_name sources
            = get_default_metrics)
   \<and> (complete_json (create_prompt company_name (combined_content sources)) = Inl e
      \<longrightarrow> extract_metrics create_prompt complete_json json_loads str_to_float company_name sources
            = get_default_metrics)
   \<and> (complete_json (create_prompt company_name (combined_content sources)) = Inr (Some response)
        \<and> json_loads response = None
      \<longrightarrow> extract_metrics create_prompt complete_json json_loads str_to_float company_name sources
            = get_default_metrics)
   \<and> (complete_json (create_prompt company_name (combined_content sources)) = Inr (Some response)
        \<and> json_loads response = Some data
        \<and> data_get_metrics data = Inl e
      \<longrightarrow> extract_metrics create_prompt complete_json json_loads str_to_float company_name sources
            = get_default_metrics)
   \<and> (complete_json (create_prompt company_name (combined_content sources)) = Inr (Some response)
        \<and> json_loads response = Some data
        \<and> data_get_metrics data = Inr metrics
        \<and> validate_metrics str_to_float metrics = Inl e
      \<longrightarrow> extract_metrics create_prompt complete_json json_loads str_to_float company_name sources
            = get_default_metrics)
   \<and> length get_default_metrics = 15
   \<and> map (\<lambda>v. (v_category v, v_metric_name v)) get_default_metrics =
        concat (map (\<lambda>(category, names). map (\<lambda>n. (JStr category, JStr n)) names)
                  METRICS_SCHEMA)
   \<and> distinct (map v_metric_name get_default_metrics)
   \<and> list_all (\<lambda>(category, names). length names = 5) METRICS_SCHEMA
   \<and> map fst METRICS_SCHEMA = [''Environmental'', ''Social'', ''Governance'']
   \<and> list_all (\<lambda>v. v_value v = Fin 50 \<and> v_confidence v = Fin (1 / 10)) get_default_metrics"
proof -
  have "length get_default_metrics = 15"
    using arg_cong [OF default_metrics_names, of length] by simp
  moreover have "map (\<lambda>v. (v_category v, v_metric_name v)) get_default_metrics =
        concat (map (\<lambda>(category, names). map (\<lambda>n. (JStr category, JStr n)) names)
                  METRICS_SCHEMA)"
    by (simp add: default_metrics_names) (simp add: METRICS_SCHEMA_def)
  moreover have "list_all (\<lambda>(category, names). length names = 5) METRICS_SCHEMA"
    "map fst METRICS_SCHEMA = [''Environmental'', ''Social'', ''Governance'']"
    by (simp_all add: METRICS_SCHEMA_def)
  ultimately show ?thesis
    using default_metrics_distinct default_metrics_values
    by (simp add: extract_metrics_def extraction_attempt_def Let_def)
qed

theorem extraction_failure_gives_defaults_witness:
  "extract_metrics (\<lambda>company_name content. content) (\<lambda>prompt. Inl ClientError)
       (\<lambda>response. None) (\<lambda>s. None) ''Tesla''
       [\<lparr>src_url = ''https://tesla.com/impact'', src_content = ''Impact report''\<rparr>]
     = get_default_metrics
   \<and> extract_metrics (\<lambda>company_name content. content) (\<lambda>prompt. Inr (Some ''I cannot answer''))
       (\<lambda>response. None) (\<lambda>s. None) ''Tesla''
       [\<lparr>src_url = ''https://tesla.com/impact'', src_content = ''Impact report''\<rparr>]
     = get_default_metrics
   \<and> extract_metrics (\<lambda>company_name content. content) (\<lambda>prompt. Inr (Some ''[1, 2]''))
       (\<lambda>response. Some (JArr [JNum (Fin 1), JNum (Fin 2)])) (\<lambda>s. None) ''Tesla''
       [\<lparr>src_url = ''https://tesla.com/impact'', src_content = ''Impact report''\<rparr>]
     = get_default_metrics
   \<and> extract_metrics (\<lambda>company_name content. content) (\<lambda>prompt. Inr (Some (''{'' @ [CHR 0x22] @ ''metrics'' @ [CHR 0x22] @ '': 7}'')))
       (\<lambda>response. Some (JObj [(''metrics'', JNum (Fin 7))])) (\<lambda>s. None) ''Tesla''
       [\<lparr>src_url = ''https://tesla.com/impact'', src_content = ''Impact report''\<rparr>]
     = get_default_metrics
   \<and> length get_default_metrics = 15"
  using extraction_failure_gives_defaults
      [of "\<lambda>prompt. Inl ClientError" "\<lambda>response. None" "\<lambda>s. None"
          "\<lambda>company_name content. content" "''Tesla''"
          "[\<lparr>src_url = ''https://tesla.com/impact'', src_content = ''Impact report''\<rparr>]"
          ClientError]
    extraction_failure_gives_defaults
      [of "\<lambda>prompt. Inr (Some ''I cannot answer'')" "\<lambda>response. None" "\<lambda>s. None"
          "\<lambda>company_name content. content" "''Tesla''"
          "[\<lparr>src_url = ''https://tesla.com/impact'', src_content = ''Impact report''\<rparr>]"
          JSONDecodeError "''I cannot answer''"]
    extraction_failure_gives_defaults
      [of "\<lambda>prompt. Inr (Some ''[1, 2]'')" "\<lambda>response. Some (JArr [JNum (Fin 1), JNum (Fin 2)])"
          "\<lambda>s. None" "\<lambda>company_name content. content" "''Tesla''"
          "[\<lparr>src_url = ''https://tesla.com/impact'', src_content = ''Impact report''\<rparr>]"
          AttributeError "''[1, 2]''" "JArr [JNum (Fin 1), JNum (Fin 2)]"]
    extraction_failure_gives_defaults
      [of "\<lambda>prompt. Inr (Some (''{'' @ [CHR 0x22] @ ''metrics'' @ [CHR 0x22] @ '': 7}''))"
          "\<lambda>response. Some (JObj [(''metrics'', JNum (Fin 7))])"
          "\<lambda>s. None" "\<lambda>company_name content. content" "''Tesla''"
          "[\<lparr>src_url = ''https://tesla.com/impact'', src_content = ''Impact report''\<rparr>]"
          TypeError "''{'' @ [CHR 0x22] @ ''metrics'' @ [CHR 0x22] @ '': 7}''" "JObj [(''metrics'', JNum (Fin 7))]" "JNum (Fin 7)"]
  by (simp add: data_get_metrics_def validate_metrics_def py_iter_def)

end
